theory Spec2Isabelle
  imports Complex_Main "HOL-Library.Sublist" "HOL-Library.Char_ord" "HOL-Library.List_Lexorder"
begin

section \<open>generate_models.py: the data handed to the graph library\<close>

text \<open>
  The script builds its graph through \<^verbatim>\<open>onnx.helper\<close>. A Python \<^verbatim>\<open>str\<close> is a
  \<^typ>\<open>string\<close>; the style names the script tests for are ASCII. The numeric literals
  are kept as the decimal numbers the script writes
  (\<^verbatim>\<open>np.array(1.5, dtype=np.float32)\<close> is \<open>Float32Scalar 1.5\<close>): the rounding of
  \<^verbatim>\<open>float32\<close> is not modelled.

  The values the script passes as keyword arguments are a Python float (\<^verbatim>\<open>min=0.0\<close>)
  or a dictionary literal with at least one item whose values are arrays
  (\<^verbatim>\<open>attrs={'value': np.array(...)}\<close>): \<open>PyDict\<close> holds the first item and the others.
\<close>

datatype ndarray =
    Float32Scalar real
  | Float32Vector "real list"

datatype py_value =
    PyFloat real
  | PyDict "string \<times> ndarray" "(string \<times> ndarray) list"

text \<open>The attributes a node can get from these values: a float, or a list of strings.\<close>

datatype attribute =
    AttrFloat real
  | AttrStrings "string list"

record node =
  op_type :: string
  node_inputs :: "string list"
  node_outputs :: "string list"
  node_name :: string
  node_attribute :: "(string \<times> attribute) list"

datatype elem_type = FLOAT

record value_info =
  vi_name :: string
  vi_elem_type :: elem_type
  vi_shape :: "int list"

record graph =
  graph_nodes :: "node list"
  graph_name :: string
  graph_inputs :: "value_info list"
  graph_outputs :: "value_info list"

text \<open>
  \<^verbatim>\<open>helper.make_attribute(key, value)\<close> of onnx, on the values above. A number becomes
  a float attribute. Any other iterable becomes the list of its elements, and iterating a
  dictionary gives its keys: a dictionary becomes the list of its keys as strings, and
  the values stored under the keys are dropped.
\<close>

fun make_attribute :: "py_value \<Rightarrow> attribute" where
  "make_attribute (PyFloat x) = AttrFloat x"
| "make_attribute (PyDict item items) = AttrStrings (map fst (item # items))"

text \<open>
  \<^verbatim>\<open>helper.make_node(op_type, inputs, outputs, name=None, ..., **kwargs)\<close> of onnx. The
  function has no parameter \<^verbatim>\<open>attrs\<close>: every keyword argument it does not name, so also
  \<^verbatim>\<open>attrs\<close>, \<^verbatim>\<open>min\<close> and \<^verbatim>\<open>max\<close>, is turned into an attribute of that name by
  \<^verbatim>\<open>make_attribute\<close>, in the order of the sorted keys.
\<close>

definition make_node ::
  "string \<Rightarrow> string list \<Rightarrow> string list \<Rightarrow> string \<Rightarrow> (string \<times> py_value) list \<Rightarrow> node" where
  "make_node op ins outs nm kw =
     \<lparr>op_type = op, node_inputs = ins, node_outputs = outs, node_name = nm,
      node_attribute = map (\<lambda>(key, v). (key, make_attribute v)) (sort_key fst kw)\<rparr>"

text \<open>\<^verbatim>\<open>helper.make_tensor_value_info(name, elem_type, shape)\<close>\<close>

definition make_tensor_value_info :: "string \<Rightarrow> elem_type \<Rightarrow> int list \<Rightarrow> value_info" where
  "make_tensor_value_info nm ty shp = \<lparr>vi_name = nm, vi_elem_type = ty, vi_shape = shp\<rparr>"

text \<open>\<^verbatim>\<open>helper.make_graph(nodes, name, inputs, outputs)\<close>\<close>

definition make_graph ::
  "node list \<Rightarrow> string \<Rightarrow> value_info list \<Rightarrow> value_info list \<Rightarrow> graph" where
  "make_graph ns nm ins outs =
     \<lparr>graph_nodes = ns, graph_name = nm, graph_inputs = ins, graph_outputs = outs\<rparr>"

section \<open>Python string operations used by the script\<close>

text \<open>\<^verbatim>\<open>p in s\<close> for two strings: \<open>p\<close> occurs in \<open>s\<close> as a contiguous run.\<close>

fun str_in :: "string \<Rightarrow> string \<Rightarrow> bool" where
  "str_in p [] = (p = [])"
| "str_in p (c # cs) = (prefix p (c # cs) \<or> str_in p cs)"

text \<open>\<^verbatim>\<open>s.lower()\<close>, on the ASCII letters (the five built-in descriptors are ASCII).\<close>

definition lower_char :: "char \<Rightarrow> char" where
  "lower_char c =
     (case map_of (zip ''ABCDEFGHIJKLMNOPQRSTUVWXYZ'' ''abcdefghijklmnopqrstuvwxyz'') c of
        Some l \<Rightarrow> l
      | None \<Rightarrow> c)"

definition lower :: "string \<Rightarrow> string" where
  "lower s = map lower_char s"

text \<open>
  \<^verbatim>\<open>s.replace(old, new)\<close>: every occurrence of \<open>old\<close>, left to right, without overlap.
  With an empty \<open>old\<close> Python puts \<open>new\<close> before every character and at the end.
\<close>

function replace :: "string \<Rightarrow> string \<Rightarrow> string \<Rightarrow> string" where
  "replace old new [] = (if old = [] then new else [])"
| "replace old new (c # cs) =
     (if old = [] then new @ c # replace old new cs
      else if prefix old (c # cs) then new @ replace old new (drop (length old) (c # cs))
      else c # replace old new cs)"
  by pat_completeness auto
termination
  by (relation "measure (\<lambda>(old, new, s). length s)") (auto simp: neq_Nil_conv)

text \<open>\<^verbatim>\<open>os.path.join(a, b)\<close> of \<^verbatim>\<open>posixpath\<close>, for two components.\<close>

definition path_join :: "string \<Rightarrow> string \<Rightarrow> string" where
  "path_join a b =
     (if prefix ''/'' b then b
      else if a = [] \<or> last a = CHR ''/'' then a @ b
      else a @ ''/'' @ b)"

section \<open>create_style_transfer_model: the node list and the graph\<close>

definition input_shape :: "int list" where
  "input_shape = [1, 3, 256, 256]"

definition output_shape :: "int list" where
  "output_shape = [1, 3, 256, 256]"

definition input_tensor :: value_info where
  "input_tensor = make_tensor_value_info ''input'' FLOAT input_shape"

definition output_tensor :: value_info where
  "output_tensor = make_tensor_value_info ''output'' FLOAT output_shape"

definition norm_node :: node where
  "norm_node = make_node ''Div'' [''input''] [''normalized''] ''normalize'' []"

text \<open>Lines 42 to 151: the \<^verbatim>\<open>if\<close>/\<^verbatim>\<open>elif\<close> chain and what each branch appends.\<close>

definition style_nodes :: "string \<Rightarrow> node list" where
  "style_nodes style_name =
     (if str_in ''Van Gogh'' style_name then
        [make_node ''Mul'' [''normalized''] [''colored''] ''color_enhance''
           [(''attrs'', PyDict (''value'', Float32Vector [1.4, 1.2, 1.1]) [])],
         make_node ''Add'' [''colored''] [''styled''] ''add_effects''
           [(''attrs'', PyDict (''value'', Float32Scalar 0.1) [])]]
      else if str_in ''Picasso'' style_name then
        [make_node ''Mul'' [''normalized''] [''contrast''] ''contrast''
           [(''attrs'', PyDict (''value'', Float32Scalar 1.5) [])],
         make_node ''Add'' [''contrast''] [''styled''] ''add_geometric''
           [(''attrs'', PyDict (''value'', Float32Scalar 0.2) [])]]
      else if str_in ''Cyberpunk'' style_name then
        [make_node ''Mul'' [''normalized''] [''neon''] ''neon_scale''
           [(''attrs'', PyDict (''value'', Float32Vector [1.3, 0.8, 1.5]) [])],
         make_node ''Add'' [''neon''] [''styled''] ''add_glow''
           [(''attrs'', PyDict (''value'', Float32Scalar 0.2) [])]]
      else if str_in ''Monet'' style_name then
        [make_node ''Mul'' [''normalized''] [''soft''] ''soft_scale''
           [(''attrs'', PyDict (''value'', Float32Scalar 1.1) [])],
         make_node ''Add'' [''soft''] [''styled''] ''add_impressionist''
           [(''attrs'', PyDict (''value'', Float32Scalar 0.05) [])]]
      else if str_in ''Anime'' style_name then
        [make_node ''Mul'' [''normalized''] [''saturated''] ''saturate''
           [(''attrs'', PyDict (''value'', Float32Scalar 1.3) [])],
         make_node ''Add'' [''saturated''] [''styled''] ''add_anime''
           [(''attrs'', PyDict (''value'', Float32Scalar 0.1) [])]]
      else
        [make_node ''Identity'' [''normalized''] [''styled''] ''identity'' []])"

definition clamp_node :: node where
  "clamp_node =
     make_node ''Clip'' [''styled''] [''clamped''] ''clamp''
       [(''min'', PyFloat 0.0), (''max'', PyFloat 1.0)]"

definition denorm_node :: node where
  "denorm_node =
     make_node ''Mul'' [''clamped''] [''output''] ''denormalize''
       [(''attrs'', PyDict (''value'', Float32Scalar 255.0) [])]"

text \<open>The list \<^verbatim>\<open>nodes\<close> when \<^verbatim>\<open>make_graph\<close> is called (line 175).\<close>

definition nodes :: "string \<Rightarrow> node list" where
  "nodes style_name = [norm_node] @ style_nodes style_name @ [clamp_node] @ [denorm_node]"

definition build_graph :: "string \<Rightarrow> graph" where
  "build_graph style_name =
     make_graph (nodes style_name) (style_name @ ''_style_transfer'')
       [input_tensor] [output_tensor]"

section \<open>create_style_transfer_model: the library and the file\<close>

text \<open>
  Whether \<^verbatim>\<open>helper.make_model\<close>, \<^verbatim>\<open>shape_inference.infer_shapes\<close>,
  \<^verbatim>\<open>SerializeToString\<close>, \<^verbatim>\<open>os.makedirs\<close>, \<^verbatim>\<open>open\<close> and \<^verbatim>\<open>write\<close> return or raise
  is decided at run time, so the environment of a run is a parameter: each
  call either returns its value or raises an exception with a message (\<^verbatim>\<open>str(e)\<close>).
  A \<^verbatim>\<open>write\<close> that raises also tells which bytes had reached the file. What these calls
  raise are instances of \<^verbatim>\<open>Exception\<close>, the class the loop of \<^verbatim>\<open>main\<close> catches; an
  interrupt of the process (\<^verbatim>\<open>KeyboardInterrupt\<close>, \<^verbatim>\<open>SystemExit\<close>) is not modelled. The
  calls of \<^verbatim>\<open>helper.make_node\<close>, \<^verbatim>\<open>helper.make_tensor_value_info\<close> and
  \<^verbatim>\<open>helper.make_graph\<close> return on the arguments the script gives them.
\<close>

datatype exn = Exception string

type_synonym bytes = "char list"

record 'm env =
  make_model :: "graph \<Rightarrow> exn + 'm"
  infer_shapes :: "'m \<Rightarrow> exn + 'm"
  SerializeToString :: "'m \<Rightarrow> exn + bytes"
  makedirs_raises :: "string \<Rightarrow> exn option"
  open_raises :: "string \<Rightarrow> exn option"
  write_raises :: "string \<Rightarrow> bytes \<Rightarrow> (exn \<times> bytes) option"

text \<open>What a run can change: the files (path to content) and the lines printed.\<close>

record world =
  files :: "string \<rightharpoonup> bytes"
  stdout :: "string list"

definition print :: "string \<Rightarrow> world \<Rightarrow> world" where
  "print line w = w\<lparr>stdout := stdout w @ [line]\<rparr>"

definition put_file :: "string \<Rightarrow> bytes \<Rightarrow> world \<Rightarrow> world" where
  "put_file path content w = w\<lparr>files := (files w)(path \<mapsto> content)\<rparr>"

text \<open>
  Lines 174 to 192. The result is \<open>None\<close> when the function returns and \<open>Some e\<close> when
  it raises \<open>e\<close>. \<^verbatim>\<open>open(output_path, 'wb')\<close> creates or empties the file before
  \<^verbatim>\<open>model.SerializeToString()\<close> is evaluated.
\<close>

definition create_style_transfer_model ::
  "'m env \<Rightarrow> string \<Rightarrow> string \<Rightarrow> world \<Rightarrow> exn option \<times> world" where
  "create_style_transfer_model env style_name output_path w =
     (case make_model env (build_graph style_name) of
        Inl e \<Rightarrow> (Some e, w)
      | Inr model \<Rightarrow>
     (case infer_shapes env model of
        Inl e \<Rightarrow> (Some e, w)
      | Inr model' \<Rightarrow>
     (case open_raises env output_path of
        Some e \<Rightarrow> (Some e, w)
      | None \<Rightarrow>
     (case SerializeToString env model' of
        Inl e \<Rightarrow> (Some e, put_file output_path [] w)
      | Inr data \<Rightarrow>
     (case write_raises env output_path data of
        Some (e, written) \<Rightarrow> (Some e, put_file output_path written w)
      | None \<Rightarrow>
          (None, print (''Created ONNX model: '' @ output_path)
                   (put_file output_path data w)))))))"

section \<open>main\<close>

definition models_dir :: string where
  "models_dir = ''public/models''"

definition styles :: "string list" where
  "styles =
     [''Van Gogh - Starry Night'',
      ''Picasso - Cubist'',
      ''Cyberpunk Neon'',
      ''Monet - Water Lilies'',
      ''Anime Studio Ghibli'']"

text \<open>Lines 213 and 214.\<close>

definition filename :: "string \<Rightarrow> string" where
  "filename style = replace '' '' ''_'' (replace '' - '' ''_'' (lower style)) @ ''.onnx''"

definition output_path :: "string \<Rightarrow> string" where
  "output_path style = path_join models_dir (filename style)"

text \<open>Lines 211 to 219: the loop with its \<^verbatim>\<open>try\<close>/\<^verbatim>\<open>except Exception\<close>.\<close>

fun generate :: "'m env \<Rightarrow> string list \<Rightarrow> world \<Rightarrow> world" where
  "generate env [] w = w"
| "generate env (style # rest) w =
     (case create_style_transfer_model env style (output_path style) w of
        (None, w') \<Rightarrow> generate env rest w'
      | (Some (Exception msg), w') \<Rightarrow>
          generate env rest
            (print (''Failed to create model for '' @ style @ '': '' @ msg) w'))"

text \<open>
  \<^verbatim>\<open>os.makedirs\<close> stands outside the \<^verbatim>\<open>try\<close>: an exception there ends \<^verbatim>\<open>main\<close>.
  Directories are not part of \<^typ>\<open>world\<close>.
\<close>

definition main :: "'m env \<Rightarrow> world \<Rightarrow> exn option \<times> world" where
  "main env w =
     (case makedirs_raises env models_dir of
        Some e \<Rightarrow> (Some e, w)
      | None \<Rightarrow> (None, print ''Model generation complete!'' (generate env styles w)))"

section \<open>The specification's vocabulary\<close>

text \<open>
  The selection rule in the words of the specification: an ordered table of the five
  known substrings, each with its scale constant and its offset constant, searched
  from the front; the first entry whose substring the descriptor contains is the branch.
\<close>

definition known_styles :: "(string \<times> ndarray \<times> ndarray) list" where
  "known_styles =
     [(''Van Gogh'', Float32Vector [1.4, 1.2, 1.1], Float32Scalar 0.1),
      (''Picasso'', Float32Scalar 1.5, Float32Scalar 0.2),
      (''Cyberpunk'', Float32Vector [1.3, 0.8, 1.5], Float32Scalar 0.2),
      (''Monet'', Float32Scalar 1.1, Float32Scalar 0.05),
      (''Anime'', Float32Scalar 1.3, Float32Scalar 0.1)]"

definition select_branch :: "string \<Rightarrow> (string \<times> ndarray \<times> ndarray) option" where
  "select_branch d = find (\<lambda>b. str_in (fst b) d) known_styles"

text \<open>
  The numbers a node holds: those of its float attributes, in the order of the
  attributes. A node has no other place for a constant: its inputs are names of tensors.
\<close>

fun attribute_numbers :: "attribute \<Rightarrow> real list" where
  "attribute_numbers (AttrFloat x) = [x]"
| "attribute_numbers (AttrStrings ss) = []"

definition node_numbers :: "node \<Rightarrow> real list" where
  "node_numbers n = concat (map (\<lambda>(key, a). attribute_numbers a) (node_attribute n))"

text \<open>
  A linear chain fed by the tensor \<open>src\<close>: every node reads exactly the one tensor
  the node before it writes (the first reads \<open>src\<close>) and writes exactly one tensor.
\<close>

fun chained :: "string \<Rightarrow> node list \<Rightarrow> bool" where
  "chained src [] = True"
| "chained src (n # ns) =
     (node_inputs n = [src] \<and>
      (case node_outputs n of [out] \<Rightarrow> chained out ns | _ \<Rightarrow> False))"

text \<open>
  The slug in the words of the specification: the descriptor lower-cased, \<^verbatim>\<open>" - "\<close>
  replaced by \<^verbatim>\<open>"_"\<close>, then the remaining spaces replaced by \<^verbatim>\<open>"_"\<close>.
\<close>

definition slug :: "string \<Rightarrow> string" where
  "slug d = replace '' '' ''_'' (replace '' - '' ''_'' (lower d))"

section \<open>Example environments\<close>

text \<open>
  In both, the library returns and the serialized bytes are the graph's name. In
  \<open>ok_env\<close> every file can be written; in \<open>denied_env\<close> opening the Picasso file
  raises.
\<close>

definition ok_env :: "graph env" where
  "ok_env =
     \<lparr>make_model = Inr, infer_shapes = Inr,
      SerializeToString = (\<lambda>g. Inr (graph_name g)),
      makedirs_raises = (\<lambda>p. None),
      open_raises = (\<lambda>p. None),
      write_raises = (\<lambda>p b. None)\<rparr>"

definition denied_env :: "graph env" where
  "denied_env =
     \<lparr>make_model = Inr, infer_shapes = Inr,
      SerializeToString = (\<lambda>g. Inr (graph_name g)),
      makedirs_raises = (\<lambda>p. None),
      open_raises = (\<lambda>p. if p = ''public/models/picasso_cubist.onnx''
                           then Some (Exception ''Permission denied'') else None),
      write_raises = (\<lambda>p b. None)\<rparr>"

definition empty_world :: world where
  "empty_world = \<lparr>files = Map.empty, stdout = []\<rparr>"

section \<open>Facts about the string operations and the paths\<close>

lemma str_in_sublist: "str_in p s = sublist p s"
  by (induction s) (auto simp: sublist_Cons_right)

lemma output_paths:
  "map output_path styles =
     [''public/models/van_gogh_starry_night.onnx'',
      ''public/models/picasso_cubist.onnx'',
      ''public/models/cyberpunk_neon.onnx'',
      ''public/models/monet_water_lilies.onnx'',
      ''public/models/anime_studio_ghibli.onnx'']"
  by (simp add: styles_def output_path_def filename_def path_join_def models_dir_def
      lower_def lower_char_def)

lemma output_paths_distinct: "distinct (map output_path styles)"
  by (simp add: output_paths)

section \<open>Facts about one call of create_style_transfer_model\<close>

lemma create_raises_indep:
  "fst (create_style_transfer_model env s p w) = fst (create_style_transfer_model env s p w')"
  by (simp add: create_style_transfer_model_def split: sum.splits option.splits prod.splits)

lemma create_stdout:
  "stdout (snd (create_style_transfer_model env s p w)) =
     stdout w @ (case fst (create_style_transfer_model env s p w) of
                   None \<Rightarrow> [''Created ONNX model: '' @ p] | Some e \<Rightarrow> [])"
  by (simp add: create_style_transfer_model_def print_def put_file_def
      split: sum.splits option.splits prod.splits)

lemma create_files_other:
  "q \<noteq> p \<Longrightarrow> files (snd (create_style_transfer_model env s p w)) q = files w q"
  by (simp add: create_style_transfer_model_def print_def put_file_def
      split: sum.splits option.splits prod.splits)

lemma create_returns:
  assumes "make_model env (build_graph s) = Inr m" "infer_shapes env m = Inr m'"
    "open_raises env p = None" "SerializeToString env m' = Inr data"
    "write_raises env p data = None"
  shows "create_style_transfer_model env s p w =
           (None, print (''Created ONNX model: '' @ p) (put_file p data w))"
  using assms by (simp add: create_style_transfer_model_def)

section \<open>Facts about the loop\<close>

lemma generate_stdout:
  "stdout (generate env ss w) =
     stdout w @ map (\<lambda>s. case fst (create_style_transfer_model env s (output_path s) w0) of
                       None \<Rightarrow> ''Created ONNX model: '' @ output_path s
                     | Some (Exception msg) \<Rightarrow>
                         ''Failed to create model for '' @ s @ '': '' @ msg) ss"
proof (induction ss arbitrary: w)
  case Nil
  show ?case by simp
next
  case (Cons s ss)
  obtain r w' where c: "create_style_transfer_model env s (output_path s) w = (r, w')"
    by (cases "create_style_transfer_model env s (output_path s) w")
  have r: "fst (create_style_transfer_model env s (output_path s) w0) = r"
    using c create_raises_indep [of env s "output_path s" w0 w] by simp
  have out: "stdout w' =
      stdout w @ (case r of None \<Rightarrow> [''Created ONNX model: '' @ output_path s] | Some e \<Rightarrow> [])"
    using c create_stdout [of env s "output_path s" w] by simp
  show ?case
  proof (cases r)
    case None
    with c r out Cons.IH [of w'] show ?thesis by simp
  next
    case (Some e)
    obtain msg where e: "e = Exception msg" by (cases e)
    from Some e c r out
      Cons.IH [of "print (''Failed to create model for '' @ s @ '': '' @ msg) w'"]
    show ?thesis by (simp add: print_def)
  qed
qed

lemma generate_files_other:
  "q \<notin> output_path ` set ss \<Longrightarrow> files (generate env ss w) q = files w q"
proof (induction ss arbitrary: w)
  case Nil
  show ?case by simp
next
  case (Cons s ss)
  obtain r w' where c: "create_style_transfer_model env s (output_path s) w = (r, w')"
    by (cases "create_style_transfer_model env s (output_path s) w")
  from Cons.prems have ne: "q \<noteq> output_path s" and rest: "q \<notin> output_path ` set ss"
    by auto
  have keep: "files w' q = files w q"
    using create_files_other [OF ne, of env s w] c by simp
  show ?case
  proof (cases r)
    case None
    with c keep Cons.IH [OF rest, of w'] show ?thesis by simp
  next
    case (Some e)
    obtain msg where e: "e = Exception msg" by (cases e)
    from Some e c keep
      Cons.IH [OF rest, of "print (''Failed to create model for '' @ s @ '': '' @ msg) w'"]
    show ?thesis by (simp add: print_def)
  qed
qed

lemma generate_files_written:
  assumes "distinct (map output_path ss)" "s \<in> set ss"
    "make_model env (build_graph s) = Inr m" "infer_shapes env m = Inr m'"
    "open_raises env (output_path s) = None" "SerializeToString env m' = Inr data"
    "write_raises env (output_path s) data = None"
  shows "files (generate env ss w) (output_path s) = Some data"
  using assms(1,2)
proof (induction ss arbitrary: w)
  case Nil
  then show ?case by simp
next
  case (Cons t ss)
  show ?case
  proof (cases "t = s")
    case True
    from Cons.prems(1) True have fresh: "output_path s \<notin> output_path ` set ss"
      by simp
    have "generate env (t # ss) w =
            generate env ss (print (''Created ONNX model: '' @ output_path s)
                               (put_file (output_path s) data w))"
      using True create_returns [OF assms(3-7), of w] by simp
    moreover have "files (generate env ss v) (output_path s) = files v (output_path s)" for v
      using generate_files_other [OF fresh, of env v] .
    ultimately show ?thesis
      by (simp add: print_def put_file_def)
  next
    case False
    with Cons.prems have d: "distinct (map output_path ss)" and m: "s \<in> set ss"
      by auto
    obtain r w' where c: "create_style_transfer_model env t (output_path t) w = (r, w')"
      by (cases "create_style_transfer_model env t (output_path t) w")
    show ?thesis
    proof (cases r)
      case None
      with c Cons.IH [OF d m, of w'] show ?thesis by simp
    next
      case (Some e)
      obtain msg where e: "e = Exception msg" by (cases e)
      from Some e c
        Cons.IH [OF d m, of "print (''Failed to create model for '' @ t @ '': '' @ msg) w'"]
      show ?thesis by simp
    qed
  qed
qed

lemma builtin_output_path:
  assumes "s \<in> set styles"
  shows "output_path s = ''public/models/'' @ slug s @ ''.onnx''"
proof -
  have "map output_path styles = map (\<lambda>s. ''public/models/'' @ slug s @ ''.onnx'') styles"
    unfolding output_paths by (simp add: styles_def slug_def lower_def lower_char_def)
  with assms show ?thesis by simp
qed

lemma no_known_style:
  assumes "\<forall>b \<in> set known_styles. \<not> str_in (fst b) d"
  shows "\<not> str_in ''Van Gogh'' d \<and> \<not> str_in ''Picasso'' d \<and> \<not> str_in ''Cyberpunk'' d \<and>
    \<not> str_in ''Monet'' d \<and> \<not> str_in ''Anime'' d"
proof -
  have "set (map fst known_styles) = {''Van Gogh'', ''Picasso'', ''Cyberpunk'', ''Monet'', ''Anime''}"
    by (simp add: known_styles_def)
  moreover have "\<forall>k \<in> set (map fst known_styles). \<not> str_in k d"
    using assms by simp
  ultimately show ?thesis by simp
qed

section \<open>The claims\<close>

subsection \<open>Branch selection\<close>

text \<open>
  C1. The builder picks the style branch as the claim says: it tests, in the order Van
  Gogh, Picasso, Cyberpunk, Monet, Anime, whether the descriptor contains the substring,
  the first match wins, and a matched branch appends one \<^verbatim>\<open>Mul\<close> node and one \<^verbatim>\<open>Add\<close>
  node. But the nodes do not carry the constants of the branch: the script passes them
  as \<^verbatim>\<open>attrs={'value': ...}\<close>, which \<^verbatim>\<open>make_node\<close> turns into an attribute named
  \<^verbatim>\<open>attrs\<close> that lists the key \<^verbatim>\<open>value\<close>. For \<^verbatim>\<open>"Picasso - Cubist"\<close> the two nodes read
  one tensor each, their only attribute is that list of strings, and neither 1.5 nor
  0.2 is among the numbers they hold; no node of any branch holds a number.
\<close>

theorem branch_constants_dropped:
  "select_branch ''Picasso - Cubist'' = Some (''Picasso'', Float32Scalar 1.5, Float32Scalar 0.2) \<and>
   map op_type (style_nodes ''Picasso - Cubist'') = [''Mul'', ''Add''] \<and>
   map node_inputs (style_nodes ''Picasso - Cubist'') = [[''normalized''], [''contrast'']] \<and>
   map node_attribute (style_nodes ''Picasso - Cubist'') =
     [[(''attrs'', AttrStrings [''value''])], [(''attrs'', AttrStrings [''value''])]] \<and>
   map node_numbers (style_nodes ''Picasso - Cubist'') = [[], []] \<and>
   (case select_branch d of
      Some (k, scale, offset) \<Rightarrow> map op_type (style_nodes d) = [''Mul'', ''Add'']
    | None \<Rightarrow> map op_type (style_nodes d) = [''Identity'']) \<and>
   concat (map node_numbers (style_nodes d)) = []"
proof -
  have a: "select_branch ''Picasso - Cubist'' =
      Some (''Picasso'', Float32Scalar 1.5, Float32Scalar 0.2)"
    by (simp add: select_branch_def known_styles_def)
  have b: "style_nodes ''Picasso - Cubist'' =
      [make_node ''Mul'' [''normalized''] [''contrast''] ''contrast''
         [(''attrs'', PyDict (''value'', Float32Scalar 1.5) [])],
       make_node ''Add'' [''contrast''] [''styled''] ''add_geometric''
         [(''attrs'', PyDict (''value'', Float32Scalar 0.2) [])]]"
    by (simp add: style_nodes_def)
  have c: "(case select_branch d of
      Some (k, scale, offset) \<Rightarrow> map op_type (style_nodes d) = [''Mul'', ''Add'']
    | None \<Rightarrow> map op_type (style_nodes d) = [''Identity''])"
    by (simp add: select_branch_def known_styles_def style_nodes_def make_node_def)
  have e: "concat (map node_numbers (style_nodes d)) = []"
    by (simp add: style_nodes_def make_node_def node_numbers_def)
  from a c e show ?thesis
    by (simp add: b make_node_def node_numbers_def)
qed

subsection \<open>The Picasso example\<close>

text \<open>
  C2 as the specification states it asks for exactly 6 nodes in the graph of
  \<^verbatim>\<open>"Picasso - Cubist"\<close>. The graph has 5.
\<close>

theorem picasso_six_nodes_counterexample:
  "length (graph_nodes (build_graph ''Picasso - Cubist'')) \<noteq> 6"
  by (simp add: build_graph_def make_graph_def nodes_def style_nodes_def)

text \<open>
  C2, amended. For \<^verbatim>\<open>"Picasso - Cubist"\<close> the output path is
  \<^verbatim>\<open>public/models/picasso_cubist.onnx\<close>; when the directory, library and file calls
  return, \<^verbatim>\<open>main\<close> leaves at that path the bytes the library serialized from the graph;
  the graph has exactly 5 nodes, in order normalize (\<^verbatim>\<open>Div\<close>), contrast (\<^verbatim>\<open>Mul\<close>),
  add_geometric (\<^verbatim>\<open>Add\<close>), clamp (\<^verbatim>\<open>Clip\<close>, with the attributes min 0 and max 1),
  denormalize (\<^verbatim>\<open>Mul\<close>), chained from \<^verbatim>\<open>input\<close> to \<^verbatim>\<open>output\<close>; and exactly one entry
  of the table, Picasso, occurs in the descriptor. The statement says nothing about the
  constants of the \<^verbatim>\<open>Mul\<close> and \<^verbatim>\<open>Add\<close> nodes.
\<close>

theorem picasso_graph:
  assumes "makedirs_raises env models_dir = None"
    and "make_model env (build_graph ''Picasso - Cubist'') = Inr m"
    and "infer_shapes env m = Inr m'"
    and "open_raises env ''public/models/picasso_cubist.onnx'' = None"
    and "SerializeToString env m' = Inr data"
    and "write_raises env ''public/models/picasso_cubist.onnx'' data = None"
  shows "output_path ''Picasso - Cubist'' = ''public/models/picasso_cubist.onnx'' \<and>
    files (snd (main env w)) ''public/models/picasso_cubist.onnx'' = Some data \<and>
    length (graph_nodes (build_graph ''Picasso - Cubist'')) = 5 \<and>
    map (\<lambda>n. (node_name n, op_type n, node_inputs n, node_outputs n))
        (graph_nodes (build_graph ''Picasso - Cubist'')) =
      [(''normalize'', ''Div'', [''input''], [''normalized'']),
       (''contrast'', ''Mul'', [''normalized''], [''contrast'']),
       (''add_geometric'', ''Add'', [''contrast''], [''styled'']),
       (''clamp'', ''Clip'', [''styled''], [''clamped'']),
       (''denormalize'', ''Mul'', [''clamped''], [''output''])] \<and>
    node_attribute (graph_nodes (build_graph ''Picasso - Cubist'') ! 3) =
      [(''max'', AttrFloat 1), (''min'', AttrFloat 0)] \<and>
    filter (\<lambda>b. str_in (fst b) ''Picasso - Cubist'') known_styles =
      [(''Picasso'', Float32Scalar 1.5, Float32Scalar 0.2)]"
proof -
  have p: "output_path ''Picasso - Cubist'' = ''public/models/picasso_cubist.onnx''"
    using output_paths by (simp add: styles_def)
  have mem: "''Picasso - Cubist'' \<in> set styles"
    by (simp add: styles_def)
  have "files (generate env styles w) (output_path ''Picasso - Cubist'') = Some data"
    using generate_files_written [OF output_paths_distinct mem assms(2,3) _ assms(5), of w]
      assms(4,6) p
    by simp
  then have f: "files (snd (main env w)) ''public/models/picasso_cubist.onnx'' = Some data"
    using assms(1) p by (simp add: main_def print_def)
  have n: "graph_nodes (build_graph ''Picasso - Cubist'') =
      [make_node ''Div'' [''input''] [''normalized''] ''normalize'' [],
       make_node ''Mul'' [''normalized''] [''contrast''] ''contrast''
         [(''attrs'', PyDict (''value'', Float32Scalar 1.5) [])],
       make_node ''Add'' [''contrast''] [''styled''] ''add_geometric''
         [(''attrs'', PyDict (''value'', Float32Scalar 0.2) [])],
       make_node ''Clip'' [''styled''] [''clamped''] ''clamp''
         [(''min'', PyFloat 0), (''max'', PyFloat 1)],
       make_node ''Mul'' [''clamped''] [''output''] ''denormalize''
         [(''attrs'', PyDict (''value'', Float32Scalar 255) [])]]"
    by (simp add: build_graph_def make_graph_def nodes_def style_nodes_def norm_node_def
        clamp_node_def denorm_node_def)
  have k: "filter (\<lambda>b. str_in (fst b) ''Picasso - Cubist'') known_styles =
      [(''Picasso'', Float32Scalar 1.5, Float32Scalar 0.2)]"
    by (simp add: known_styles_def)
  from p f k show ?thesis
    by (simp add: n make_node_def)
qed

theorem picasso_graph_witness:
  "makedirs_raises ok_env models_dir = None \<and>
   make_model ok_env (build_graph ''Picasso - Cubist'') = Inr (build_graph ''Picasso - Cubist'') \<and>
   files (snd (main ok_env empty_world)) ''public/models/picasso_cubist.onnx'' =
     Some ''Picasso - Cubist_style_transfer'' \<and>
   length (graph_nodes (build_graph ''Picasso - Cubist'')) = 5"
proof -
  have "files (snd (main ok_env empty_world)) ''public/models/picasso_cubist.onnx'' =
      Some (graph_name (build_graph ''Picasso - Cubist'')) \<and>
    length (graph_nodes (build_graph ''Picasso - Cubist'')) = 5"
    using picasso_graph [of ok_env "build_graph ''Picasso - Cubist''"
        "build_graph ''Picasso - Cubist''" "graph_name (build_graph ''Picasso - Cubist'')"
        empty_world]
    by (simp add: ok_env_def)
  then show ?thesis
    by (simp add: ok_env_def build_graph_def make_graph_def)
qed

subsection \<open>Descriptors that match no known substring\<close>

text \<open>
  C3. A descriptor that contains none of the five known substrings gets the four nodes
  normalize, identity, clamp, denormalize, in this order: the identity node stands where
  a style branch would put its scale and offset pair.
\<close>

theorem unmatched_identity:
  assumes "\<not> str_in ''Van Gogh'' d" "\<not> str_in ''Picasso'' d" "\<not> str_in ''Cyberpunk'' d"
    "\<not> str_in ''Monet'' d" "\<not> str_in ''Anime'' d"
  shows "nodes d =
      [norm_node, make_node ''Identity'' [''normalized''] [''styled''] ''identity'' [],
       clamp_node, denorm_node] \<and>
    map node_name (graph_nodes (build_graph d)) =
      [''normalize'', ''identity'', ''clamp'', ''denormalize'']"
  using assms
  by (simp add: build_graph_def make_graph_def nodes_def style_nodes_def norm_node_def
      clamp_node_def denorm_node_def make_node_def)

theorem unmatched_identity_witness:
  "\<not> str_in ''Van Gogh'' ''Unknown Style'' \<and> \<not> str_in ''Picasso'' ''Unknown Style'' \<and>
   \<not> str_in ''Cyberpunk'' ''Unknown Style'' \<and> \<not> str_in ''Monet'' ''Unknown Style'' \<and>
   \<not> str_in ''Anime'' ''Unknown Style'' \<and>
   length (nodes ''Unknown Style'') = 4 \<and>
   map node_name (graph_nodes (build_graph ''Unknown Style'')) =
     [''normalize'', ''identity'', ''clamp'', ''denormalize'']"
  using unmatched_identity [of "''Unknown Style''"] by simp

subsection \<open>Output paths of the built-in styles\<close>

text \<open>
  C4. For each of the five built-in descriptors the output path is
  \<^verbatim>\<open>public/models/<slug>.onnx\<close>, and when the directory, library and file calls for
  that descriptor return, \<^verbatim>\<open>main\<close> returns and leaves the serialized bytes in a file
  at exactly that path, whatever happens to the other four.
\<close>

theorem builtin_paths:
  assumes "s \<in> set styles"
    and "makedirs_raises env models_dir = None"
    and "make_model env (build_graph s) = Inr m"
    and "infer_shapes env m = Inr m'"
    and "open_raises env (output_path s) = None"
    and "SerializeToString env m' = Inr data"
    and "write_raises env (output_path s) data = None"
  shows "output_path s = ''public/models/'' @ slug s @ ''.onnx'' \<and>
    fst (main env w) = None \<and>
    files (snd (main env w)) (''public/models/'' @ slug s @ ''.onnx'') = Some data"
proof -
  have p: "output_path s = ''public/models/'' @ slug s @ ''.onnx''"
    using builtin_output_path [OF assms(1)] .
  have "files (generate env styles w) (output_path s) = Some data"
    using generate_files_written [OF output_paths_distinct assms(1,3-7)] .
  with assms(2) p show ?thesis
    by (simp add: main_def print_def)
qed

theorem builtin_paths_witness:
  "''Monet - Water Lilies'' \<in> set styles \<and>
   output_path ''Monet - Water Lilies'' = ''public/models/monet_water_lilies.onnx'' \<and>
   files (snd (main denied_env empty_world)) ''public/models/monet_water_lilies.onnx'' =
     Some ''Monet - Water Lilies_style_transfer''"
proof -
  let ?s = "''Monet - Water Lilies''"
  have s: "slug ?s = ''monet_water_lilies''"
    by (simp add: slug_def lower_def lower_char_def)
  have mem: "?s \<in> set styles"
    by (simp add: styles_def)
  have op: "output_path ?s = ''public/models/monet_water_lilies.onnx''"
    using output_paths by (simp add: styles_def)
  have "output_path ?s = ''public/models/'' @ slug ?s @ ''.onnx'' \<and>
    fst (main denied_env empty_world) = None \<and>
    files (snd (main denied_env empty_world)) (''public/models/'' @ slug ?s @ ''.onnx'') =
      Some (graph_name (build_graph ?s))"
    by (rule builtin_paths [OF mem, of denied_env "build_graph ?s" "build_graph ?s"])
      (simp_all add: denied_env_def op)
  with mem s op show ?thesis
    by (simp add: build_graph_def make_graph_def)
qed

subsection \<open>Declared tensor shapes\<close>

text \<open>
  C5. For every style descriptor the graph declares one input and one output, both of
  shape [1, 3, 256, 256].
\<close>

theorem fixed_shapes:
  "map vi_shape (graph_inputs (build_graph d)) = [[1, 3, 256, 256]] \<and>
   map vi_shape (graph_outputs (build_graph d)) = [[1, 3, 256, 256]]"
  by (simp add: build_graph_def make_graph_def input_tensor_def output_tensor_def
      make_tensor_value_info_def input_shape_def output_shape_def)

theorem fixed_shapes_witness:
  "map vi_shape (graph_inputs (build_graph ''Unknown Style'')) = [[1, 3, 256, 256]] \<and>
   map vi_shape (graph_outputs (build_graph ''Cyberpunk Neon'')) = [[1, 3, 256, 256]]"
  using fixed_shapes [of "''Unknown Style''"] fixed_shapes [of "''Cyberpunk Neon''"]
  by simp

subsection \<open>Node chaining\<close>

text \<open>
  C6. For every style descriptor the nodes of the graph form one linear chain: the graph
  declares the input \<^verbatim>\<open>input\<close>, the first node reads it, every later node reads exactly
  the tensor the node before it writes, and each node writes one tensor. All tensor names
  written are different and differ from the graph input, so nothing is read before it is
  written, no tensor has two writers and the chain never returns to an earlier name. The
  last node writes the declared output.
\<close>

theorem linear_chain:
  "map vi_name (graph_inputs (build_graph d)) = [''input''] \<and>
   chained ''input'' (graph_nodes (build_graph d)) \<and>
   distinct (''input'' # concat (map node_outputs (graph_nodes (build_graph d)))) \<and>
   node_outputs (last (graph_nodes (build_graph d))) = map vi_name (graph_outputs (build_graph d))"
  by (simp add: build_graph_def make_graph_def input_tensor_def output_tensor_def
      make_tensor_value_info_def nodes_def style_nodes_def make_node_def norm_node_def
      clamp_node_def denorm_node_def)

theorem linear_chain_witness:
  "chained ''input'' (graph_nodes (build_graph ''Anime Studio Ghibli'')) \<and>
   concat (map node_outputs (graph_nodes (build_graph ''Anime Studio Ghibli''))) =
     [''normalized'', ''saturated'', ''styled'', ''clamped'', ''output'']"
proof -
  have "concat (map node_outputs (graph_nodes (build_graph ''Anime Studio Ghibli''))) =
      [''normalized'', ''saturated'', ''styled'', ''clamped'', ''output'']"
    by (simp add: build_graph_def make_graph_def nodes_def style_nodes_def make_node_def
        norm_node_def clamp_node_def denorm_node_def)
  with linear_chain [of "''Anime Studio Ghibli''"] show ?thesis
    by simp
qed

subsection \<open>Failures are caught per style\<close>

text \<open>
  C7. When \<^verbatim>\<open>os.makedirs\<close> returns, \<^verbatim>\<open>main\<close> returns normally and prints one line for
  each style, in the order of the list, and then \<^verbatim>\<open>Model generation complete!\<close>,
  however many styles failed. The line of a style is \<^verbatim>\<open>Created ONNX model: <path>\<close>
  when the call for it returns and \<^verbatim>\<open>Failed to create model for <style>: <message>\<close>
  when the call raises. Whether the call for a style raises does not depend on the
  world it starts from (\<open>create_raises_indep\<close>), so it is read off at \<open>w\<close>.
\<close>

theorem main_messages:
  assumes "makedirs_raises env models_dir = None"
  shows "fst (main env w) = None \<and>
    stdout (snd (main env w)) =
      stdout w @
      map (\<lambda>s. case fst (create_style_transfer_model env s (output_path s) w) of
                 None \<Rightarrow> ''Created ONNX model: '' @ output_path s
               | Some (Exception msg) \<Rightarrow> ''Failed to create model for '' @ s @ '': '' @ msg)
        styles @
      [''Model generation complete!'']"
  using assms generate_stdout [of env styles w w]
  by (simp add: main_def print_def)

theorem main_messages_witness:
  "makedirs_raises denied_env models_dir = None \<and>
   stdout (snd (main denied_env empty_world)) =
     [''Created ONNX model: public/models/van_gogh_starry_night.onnx'',
      ''Failed to create model for Picasso - Cubist: Permission denied'',
      ''Created ONNX model: public/models/cyberpunk_neon.onnx'',
      ''Created ONNX model: public/models/monet_water_lilies.onnx'',
      ''Created ONNX model: public/models/anime_studio_ghibli.onnx'',
      ''Model generation complete!'']"
proof -
  have m: "makedirs_raises denied_env models_dir = None"
    by (simp add: denied_env_def)
  have r: "fst (create_style_transfer_model denied_env s p v) =
      (if p = ''public/models/picasso_cubist.onnx'' then Some (Exception ''Permission denied'')
       else None)" for s p v
    by (simp add: create_style_transfer_model_def denied_env_def)
  have e: "stdout empty_world = []"
    by (simp add: empty_world_def)
  have p: "output_path ''Van Gogh - Starry Night'' = ''public/models/van_gogh_starry_night.onnx''"
    "output_path ''Picasso - Cubist'' = ''public/models/picasso_cubist.onnx''"
    "output_path ''Cyberpunk Neon'' = ''public/models/cyberpunk_neon.onnx''"
    "output_path ''Monet - Water Lilies'' = ''public/models/monet_water_lilies.onnx''"
    "output_path ''Anime Studio Ghibli'' = ''public/models/anime_studio_ghibli.onnx''"
    using output_paths by (simp_all add: styles_def)
  from main_messages [OF m, of empty_world] m show ?thesis
    by (simp add: r p e styles_def)
qed

subsection \<open>The normalize node has no divisor\<close>

text \<open>
  C8. For every style descriptor the first node is the normalize node: a \<^verbatim>\<open>Div\<close> node
  whose only input is \<^verbatim>\<open>input\<close> and that is given no keyword argument, so it has no
  attribute and holds no number: no divisor and in particular no 255 is attached to it.
\<close>

theorem normalize_has_no_divisor:
  "nodes d = norm_node # style_nodes d @ [clamp_node, denorm_node] \<and>
   op_type norm_node = ''Div'' \<and> node_name norm_node = ''normalize'' \<and>
   node_inputs norm_node = [''input''] \<and> node_attribute norm_node = [] \<and>
   node_numbers norm_node = []"
  by (simp add: nodes_def norm_node_def make_node_def node_numbers_def)

theorem normalize_has_no_divisor_witness:
  "hd (nodes ''Picasso - Cubist'') =
     \<lparr>op_type = ''Div'', node_inputs = [''input''], node_outputs = [''normalized''],
      node_name = ''normalize'', node_attribute = []\<rparr>"
  using normalize_has_no_divisor [of "''Picasso - Cubist''"]
  by (simp add: norm_node_def make_node_def)

subsection \<open>Dispatch is case-sensitive\<close>

text \<open>
  C10. A descriptor that contains a known style name only in another letter case (some
  name occurs after lower-casing both, none occurs as written) matches no branch: the
  builder appends the identity node and the graph is the four-node identity graph.
\<close>

theorem dispatch_case_sensitive:
  assumes "\<exists>b \<in> set known_styles. str_in (lower (fst b)) (lower d)"
    and "\<forall>b \<in> set known_styles. \<not> str_in (fst b) d"
  shows "style_nodes d = [make_node ''Identity'' [''normalized''] [''styled''] ''identity'' []] \<and>
    map op_type (nodes d) = [''Div'', ''Identity'', ''Clip'', ''Mul''] \<and>
    select_branch d = None"
proof -
  note n = no_known_style [OF assms(2)]
  have s: "style_nodes d = [make_node ''Identity'' [''normalized''] [''styled''] ''identity'' []]"
    using n by (simp add: style_nodes_def)
  have o: "map op_type (nodes d) = [''Div'', ''Identity'', ''Clip'', ''Mul'']"
    by (simp add: s nodes_def norm_node_def clamp_node_def denorm_node_def make_node_def)
  have b: "select_branch d = None"
    using n by (simp add: select_branch_def known_styles_def)
  from s o b show ?thesis by simp
qed

theorem dispatch_case_sensitive_witness:
  "str_in (lower ''Van Gogh'') (lower ''van gogh starry night'') \<and>
   select_branch ''van gogh starry night'' = None \<and>
   map op_type (nodes ''van gogh starry night'') = [''Div'', ''Identity'', ''Clip'', ''Mul'']"
proof -
  let ?d = "''van gogh starry night''"
  have l: "str_in (lower ''Van Gogh'') (lower ?d)"
    by (simp add: lower_def lower_char_def)
  have "(''Van Gogh'', Float32Vector [1.4, 1.2, 1.1], Float32Scalar 0.1) \<in> set known_styles"
    by (simp add: known_styles_def)
  with l have a: "\<exists>b \<in> set known_styles. str_in (lower (fst b)) (lower ?d)"
    by (rule_tac bexI) simp_all
  have b: "\<forall>b \<in> set known_styles. \<not> str_in (fst b) ?d"
    by (simp add: known_styles_def)
  from dispatch_case_sensitive [OF a b] l show ?thesis
    by simp
qed

end
